theory Spec2Isabelle
  imports Main "HOL-Library.AList" "HOL-Library.Sublist" "HOL-Library.Multiset"
begin

section \<open>Strings and paths\<close>

text \<open>
  Strings are ASCII byte strings. \<open>lower\<close> and \<open>upper\<close> are Python's \<open>str.lower\<close> and
  \<open>str.upper\<close> on ASCII letters; every other byte is left alone.
\<close>

definition lower_char :: "char \<Rightarrow> char" where
  "lower_char c =
     (case map_of (zip ''ABCDEFGHIJKLMNOPQRSTUVWXYZ'' ''abcdefghijklmnopqrstuvwxyz'') c of
        Some d \<Rightarrow> d | None \<Rightarrow> c)"

definition upper_char :: "char \<Rightarrow> char" where
  "upper_char c =
     (case map_of (zip ''abcdefghijklmnopqrstuvwxyz'' ''ABCDEFGHIJKLMNOPQRSTUVWXYZ'') c of
        Some d \<Rightarrow> d | None \<Rightarrow> c)"

definition lower :: "string \<Rightarrow> string" where
  "lower s = map lower_char s"

definition upper :: "string \<Rightarrow> string" where
  "upper s = map upper_char s"

text \<open>\<open>s.endswith(suf)\<close>.\<close>

definition endswith :: "string \<Rightarrow> string \<Rightarrow> bool" where
  "endswith s suf \<longleftrightarrow> length suf \<le> length s \<and> drop (length s - length suf) s = suf"

text \<open>
  A path is absolute: its first component is the anchor (\<open>/\<close>, or a drive root such as
  \<open>C:\\<close>), the others are names. \<open>path_name\<close> is \<open>p.name\<close>, \<open>py_suffix\<close> is
  pathlib's \<open>suffix\<close> of a name (the text from the last dot on, when that dot is neither
  the first nor the last character), \<open>path_str\<close> is \<open>str(p)\<close> for the separator given.
\<close>

type_synonym path = "string list"

definition path_name :: "path \<Rightarrow> string" where
  "path_name p = (if length p \<le> 1 then [] else last p)"

definition py_suffix :: "string \<Rightarrow> string" where
  "py_suffix name =
     (let t = takeWhile (\<lambda>c. c \<noteq> CHR ''.'') (rev name) in
      if length t < length name then
        (let i = length name - length t - 1 in
         if 0 < i \<and> i < length name - 1 then drop i name else [])
      else [])"

fun join_names :: "string \<Rightarrow> string list \<Rightarrow> string" where
  "join_names sep [] = []"
| "join_names sep [n] = n"
| "join_names sep (n # m # ns) = n @ sep @ join_names sep (m # ns)"

definition path_str :: "string \<Rightarrow> path \<Rightarrow> string" where
  "path_str sep p = (case p of [] \<Rightarrow> ''.'' | a # ns \<Rightarrow> a @ join_names sep ns)"

fun parents :: "path \<Rightarrow> path list" where
  "parents [] = []"
| "parents [a] = []"
| "parents (a # b # ns) = butlast (a # b # ns) # parents (butlast (a # b # ns))"

section \<open>Configuration constants\<close>

definition DEFAULT_PATTERNS :: "string list" where
  "DEFAULT_PATTERNS = [''MW-SGB*.csv'', ''nse_sgb_data*.csv'']"

definition IGNORE_SUFFIXES :: "string list" where
  "IGNORE_SUFFIXES = [''.crdownload'', ''.part'', ''.tmp'']"

definition SKIP_DIR_NAMES :: "string list" where
  "SKIP_DIR_NAMES =
     [''windows'', ''program files'', ''program files (x86)'', ''programdata'',
      ''$recycle.bin'', ''system volume information'',
      ''appdata'', ''cache'', ''.cache'', ''temp'', ''tmp'',
      ''.git'', ''.svn'', ''node_modules'', ''__pycache__'']"

section \<open>The filesystem\<close>

text \<open>
  The filesystem is a forest of nodes under their anchors, each directory an association
  list of its entries in listing order. A node whose \<open>st_mtime\<close> is \<open>None\<close> is one whose
  \<open>stat\<close> fails (permission denied, broken link); a directory that is not \<open>listable\<close> is
  one whose \<open>scandir\<close> fails (locked, encrypted or offline volume, permission denied).
  Timestamps are integers: the code only subtracts and compares them. There are no
  symbolic links, so \<open>resolve\<close> is the identity on paths.

  Exceptions are values. \<open>Raised_FileNotFoundError\<close> is the \<open>FileNotFoundError\<close> that
  \<open>collect_csv\<close> raises itself (line 232), with its message. \<open>Library_Exception\<close> is an
  exception that comes out of a library call, with the name of its class and its message;
  the class may be \<open>FileNotFoundError\<close> too.
\<close>

datatype exn = Raised_FileNotFoundError string | Library_Exception string string

definition no_such_file :: exn where
  "no_such_file = Library_Exception ''FileNotFoundError'' ''[Errno 2] No such file or directory''"

definition permission_denied :: exn where
  "permission_denied = Library_Exception ''PermissionError'' ''[Errno 13] Permission denied''"

datatype node =
    is_File: File (st_mtime: "int option") (content: string)
  | is_Dir: Dir (st_mtime: "int option") (listable: bool) (entries: "(string \<times> node) list")

type_synonym fs = "(string \<times> node) list"

fun lookup :: "fs \<Rightarrow> path \<Rightarrow> node option" where
  "lookup es [] = None"
| "lookup es [n] = map_of es n"
| "lookup es (n # m # ns) =
     (case map_of es n of
        Some (Dir t l sub) \<Rightarrow> lookup sub (m # ns)
      | _ \<Rightarrow> None)"

definition exists :: "fs \<Rightarrow> path \<Rightarrow> bool" where
  "exists fs p \<longleftrightarrow> lookup fs p \<noteq> None"

definition is_dir :: "fs \<Rightarrow> path \<Rightarrow> bool" where
  "is_dir fs p = (case lookup fs p of Some (Dir t l es) \<Rightarrow> True | _ \<Rightarrow> False)"

text \<open>
  \<open>exists\<close> and \<open>is_dir\<close> above are \<open>os.path.exists\<close> and \<open>os.path.isdir\<close>, which never
  raise. \<open>p.stat().st_mtime\<close> raises when the path is missing or cannot be examined.
\<close>

definition stat_mtime :: "fs \<Rightarrow> path \<Rightarrow> exn + int" where
  "stat_mtime fs p =
     (case lookup fs p of
        None \<Rightarrow> Inl no_such_file
      | Some nd \<Rightarrow>
          (case st_mtime nd of
             None \<Rightarrow> Inl permission_denied
           | Some t \<Rightarrow> Inr t))"

text \<open>
  pathlib's \<open>p.is_file()\<close>, \<open>p.is_dir()\<close> and \<open>p.exists()\<close>: false for a missing path; a
  path whose \<open>stat\<close> fails for another reason raises.
\<close>

definition is_file :: "fs \<Rightarrow> path \<Rightarrow> exn + bool" where
  "is_file fs p =
     (case lookup fs p of
        None \<Rightarrow> Inr False
      | Some nd \<Rightarrow>
          (case st_mtime nd of
             None \<Rightarrow> Inl permission_denied
           | Some t \<Rightarrow> Inr (is_File nd)))"

definition path_is_dir :: "fs \<Rightarrow> path \<Rightarrow> exn + bool" where
  "path_is_dir fs p =
     (case lookup fs p of
        None \<Rightarrow> Inr False
      | Some nd \<Rightarrow>
          (case st_mtime nd of
             None \<Rightarrow> Inl permission_denied
           | Some t \<Rightarrow> Inr (is_Dir nd)))"

definition path_exists :: "fs \<Rightarrow> path \<Rightarrow> exn + bool" where
  "path_exists fs p =
     (case lookup fs p of
        None \<Rightarrow> Inr False
      | Some nd \<Rightarrow>
          (case st_mtime nd of
             None \<Rightarrow> Inl permission_denied
           | Some t \<Rightarrow> Inr True))"

text \<open>\<open>_is_accessible_dir\<close>: \<open>os.scandir(p)\<close> opens without an exception.\<close>

definition is_accessible_dir :: "fs \<Rightarrow> path \<Rightarrow> bool" where
  "is_accessible_dir fs p = (case lookup fs p of Some (Dir t True es) \<Rightarrow> True | _ \<Rightarrow> False)"

text \<open>\<open>p.iterdir()\<close>: the children of a directory, or an exception.\<close>

definition iterdir :: "fs \<Rightarrow> path \<Rightarrow> exn + path list" where
  "iterdir fs p =
     (case lookup fs p of
        Some (Dir t True es) \<Rightarrow> Inr (map (\<lambda>e. p @ [fst e]) es)
      | _ \<Rightarrow> Inl (Library_Exception ''OSError'' ''scandir failed''))"

text \<open>
  \<open>os.walk(top, topdown=True, onerror=lambda e: None)\<close>, with the loop body's in-place
  filter of \<open>dirnames\<close> as the predicate \<open>keep\<close>: the walk yields the current directory and
  its non-directory names, then descends into the sub-directories that the body kept. A
  directory that cannot be listed yields nothing.
\<close>

fun os_walk :: "(string \<Rightarrow> bool) \<Rightarrow> path \<Rightarrow> node \<Rightarrow> (path \<times> string list) list" where
  "os_walk keep cur (File t c) = []"
| "os_walk keep cur (Dir t l es) =
     (if \<not> l then []
      else (cur, map fst (filter (\<lambda>e. is_File (snd e)) es)) #
           concat (map (\<lambda>e. if is_Dir (snd e) \<and> keep (fst e)
                              then os_walk keep (cur @ [fst e]) (snd e) else []) es))"

text \<open>\<open>os.walk(root, ...)\<close> from a path: a root that is missing or is no directory yields nothing.\<close>

definition walk_from :: "fs \<Rightarrow> (string \<Rightarrow> bool) \<Rightarrow> path \<Rightarrow> (path \<times> string list) list" where
  "walk_from fs keep root = (case lookup fs root of None \<Rightarrow> [] | Some nd \<Rightarrow> os_walk keep root nd)"

section \<open>The environment of a call\<close>

text \<open>
  What the program reads from its platform and from the Python library. \<open>glob\<close> is
  \<open>list(d.glob(pat))\<close> and \<open>path_match\<close> is \<open>Path(name).match(pat)\<close>: the matching rules
  are the library's, so the program is verified for every behaviour of the two, including
  the exceptions they raise for patterns they reject. \<open>logical_drives\<close> and \<open>drive_type\<close> are
  the two WinAPI calls. The \<open>_fault\<close> fields say whether the operating system refuses
  the call for a reason outside the tree (permissions, a move across devices, a full
  disk, an output stream that cannot encode a character), and with which class and
  message.

  Other processes may change the filesystem while the program runs. \<open>sort_fs\<close> gives, for
  the tree that the scan read, the tree that the \<open>stat\<close> calls of the final sort find; it
  is the identity when nothing else touches the filesystem.
\<close>

record world =
  system :: string
  now :: int
  glob :: "fs \<Rightarrow> path \<Rightarrow> string \<Rightarrow> exn + path list"
  path_match :: "string \<Rightarrow> string \<Rightarrow> exn + bool"
  logical_drives :: int
  drive_type :: "path \<Rightarrow> exn + int"
  cwd :: path
  script_dir :: path
  home :: path
  environ :: "string \<Rightarrow> path option"
  timestamp :: string
  sort_fs :: "fs \<Rightarrow> fs"
  mkdir_fault :: "(string \<times> string) option"
  move_fault :: "(string \<times> string) option"
  copy_fault :: "(string \<times> string) option"
  unlink_fault :: "(string \<times> string) option"
  print_fault :: "(string \<times> string) option"

definition sep :: "world \<Rightarrow> string" where
  "sep w = (if system w = ''Windows'' then [CHR 0x5C] else ''/'')"

section \<open>The recent-file selector\<close>

text \<open>The three casings in which every pattern is tried, in the order of the source.\<close>

definition casings :: "string list \<Rightarrow> string list" where
  "casings patterns = concat (map (\<lambda>pat. [pat, lower pat, upper pat]) patterns)"

text \<open>
  \<open>_list_matches\<close>: the globs run in order and their results are appended; the first
  exception ends the loop and what was appended so far is returned.
\<close>

fun glob_each :: "world \<Rightarrow> fs \<Rightarrow> path \<Rightarrow> string list \<Rightarrow> path list" where
  "glob_each w fs d [] = []"
| "glob_each w fs d (q # qs) =
     (case glob w fs d q of
        Inl e \<Rightarrow> []
      | Inr ps \<Rightarrow> ps @ glob_each w fs d qs)"

definition list_matches :: "world \<Rightarrow> fs \<Rightarrow> path \<Rightarrow> string list \<Rightarrow> path list" where
  "list_matches w fs d patterns = glob_each w fs d (casings patterns)"

text \<open>
  \<open>_enumerate_accessible_roots\<close>. On Windows the drive letters whose bit is set in the
  mask, whose drive type is known and has a root directory, and which can be listed. On
  the other platforms the four conventional mount points and, next to each, every
  directory right below it that can be listed.
\<close>

definition drive_root :: "char \<Rightarrow> path" where
  "drive_root letter = [[letter, CHR '':'', CHR 0x5C]]"

definition windows_roots :: "world \<Rightarrow> fs \<Rightarrow> path list" where
  "windows_roots w fs =
     concat (map (\<lambda>(i, letter).
        if (logical_drives w div 2 ^ i) mod 2 = 0 then []
        else (case drive_type w (drive_root letter) of
                Inl e \<Rightarrow> []
              | Inr dtype \<Rightarrow>
                  if dtype = 1 \<or> dtype = 0 then []
                  else if is_accessible_dir fs (drive_root letter) then [drive_root letter]
                  else []))
       (zip [0 ..< 26] ''ABCDEFGHIJKLMNOPQRSTUVWXYZ''))"

text \<open>
  The state of the mount-point loop: the set \<open>seen\<close> and the list \<open>roots\<close>. One \<open>try\<close>
  encloses the whole loop over the children of a base, so the first child whose
  \<open>is_dir()\<close> raises ends the loop: the children after it are not looked at.
\<close>

fun add_children :: "fs \<Rightarrow> path list \<times> path list \<Rightarrow> path list \<Rightarrow> path list \<times> path list" where
  "add_children fs st [] = st"
| "add_children fs st (child # cs) =
     (case path_is_dir fs child of
        Inl e \<Rightarrow> st
      | Inr d \<Rightarrow>
          add_children fs
            (if d \<and> is_accessible_dir fs child
             then (if child \<in> set (fst st) then st else (child # fst st, snd st @ [child]))
             else st)
            cs)"

definition add_base :: "fs \<Rightarrow> path list \<times> path list \<Rightarrow> path \<Rightarrow> path list \<times> path list" where
  "add_base fs st base =
     (if is_accessible_dir fs base
      then add_children fs (fst st, snd st @ [base])
             (case iterdir fs base of Inl e \<Rightarrow> [] | Inr cs \<Rightarrow> cs)
      else st)"

definition mount_candidates :: "path list" where
  "mount_candidates = [[''/''], [''/'', ''mnt''], [''/'', ''media''], [''/'', ''Volumes'']]"

definition posix_roots :: "fs \<Rightarrow> path list" where
  "posix_roots fs = snd (foldl (add_base fs) ([], []) mount_candidates)"

text \<open>The final loop: duplicates are dropped, the first occurrence stays.\<close>

fun uniq :: "path list \<Rightarrow> path list \<Rightarrow> path list" where
  "uniq seen [] = []"
| "uniq seen (r # rs) = (if r \<in> set seen then uniq seen rs else r # uniq (r # seen) rs)"

definition enumerate_accessible_roots :: "world \<Rightarrow> fs \<Rightarrow> path list" where
  "enumerate_accessible_roots w fs =
     uniq [] (if system w = ''Windows'' then windows_roots w fs else posix_roots fs)"

text \<open>
  \<open>any(match(pat) or match(pat.lower()) or match(pat.upper()) for pat in patterns)\<close>:
  evaluation stops at the first match and at the first exception.
\<close>

fun any_match :: "world \<Rightarrow> string \<Rightarrow> string list \<Rightarrow> exn + bool" where
  "any_match w name [] = Inr False"
| "any_match w name (q # qs) =
     (case path_match w name q of
        Inl e \<Rightarrow> Inl e
      | Inr b \<Rightarrow> if b then Inr True else any_match w name qs)"

definition ignored :: "world \<Rightarrow> path \<Rightarrow> bool" where
  "ignored w p = list_ex (\<lambda>suf. endswith (lower (path_str (sep w) p)) suf) IGNORE_SUFFIXES"

text \<open>
  The body of the deep loop for one file name: \<open>Some p\<close> when \<open>p\<close> is appended to
  \<open>files\<close>, \<open>None\<close> on every \<open>continue\<close>, the one of the exception handler included.
\<close>

definition deep_candidate ::
  "world \<Rightarrow> fs \<Rightarrow> string list \<Rightarrow> int \<Rightarrow> path \<Rightarrow> string \<Rightarrow> path option" where
  "deep_candidate w fs patterns cutoff current_dir name =
     (let p = current_dir @ [name] in
      if lower (py_suffix (path_name p)) \<noteq> ''.csv'' then None
      else if ignored w p then None
      else (case any_match w name (casings patterns) of
              Inl e \<Rightarrow> None
            | Inr matched \<Rightarrow>
                if \<not> matched then None
                else (case stat_mtime fs p of
                        Inl e \<Rightarrow> None
                      | Inr t \<Rightarrow> if t \<ge> cutoff then Some p else None)))"

text \<open>The body of the shallow loop for one path that a glob returned.\<close>

definition shallow_candidate :: "world \<Rightarrow> fs \<Rightarrow> int \<Rightarrow> path \<Rightarrow> path option" where
  "shallow_candidate w fs cutoff p =
     (case is_file fs p of
        Inl e \<Rightarrow> None
      | Inr f \<Rightarrow>
          if \<not> f then None
          else if lower (py_suffix (path_name p)) \<noteq> ''.csv'' then None
          else (case stat_mtime fs p of
                  Inl e \<Rightarrow> None
                | Inr t \<Rightarrow>
                    if t \<ge> cutoff then (if \<not> ignored w p then Some p else None)
                    else None))"

definition keep_dir :: "string \<Rightarrow> bool" where
  "keep_dir name \<longleftrightarrow> lower name \<notin> set SKIP_DIR_NAMES"

definition deep_files :: "world \<Rightarrow> fs \<Rightarrow> string list \<Rightarrow> int \<Rightarrow> path list" where
  "deep_files w fs patterns cutoff =
     concat (map (\<lambda>root.
        concat (map (\<lambda>(current_dir, filenames).
           List.map_filter (deep_candidate w fs patterns cutoff current_dir) filenames)
          (walk_from fs keep_dir root)))
       (enumerate_accessible_roots w fs))"

definition shallow_files :: "world \<Rightarrow> fs \<Rightarrow> path list \<Rightarrow> string list \<Rightarrow> int \<Rightarrow> path list" where
  "shallow_files w fs dirs patterns cutoff =
     concat (map (\<lambda>d. List.map_filter (shallow_candidate w fs cutoff) (list_matches w fs d patterns))
       dirs)"

text \<open>
  \<open>files.sort(key=lambda p: p.stat().st_mtime, reverse=True)\<close>: the keys are computed
  first, one \<open>stat\<close> per element, in no \<open>try\<close>, so an exception of a \<open>stat\<close> leaves the
  function; the sort is stable and, reversed, keeps elements of equal key in their order.
  The sort reads the tree \<open>sort_fs w fs\<close>.
\<close>

fun stat_keys :: "fs \<Rightarrow> path list \<Rightarrow> exn + (int \<times> path) list" where
  "stat_keys fs [] = Inr []"
| "stat_keys fs (p # ps) =
     (case stat_mtime fs p of
        Inl e \<Rightarrow> Inl e
      | Inr t \<Rightarrow>
          (case stat_keys fs ps of
             Inl e \<Rightarrow> Inl e
           | Inr kps \<Rightarrow> Inr ((t, p) # kps)))"

definition sort_newest_first :: "fs \<Rightarrow> path list \<Rightarrow> exn + path list" where
  "sort_newest_first fs files =
     (case stat_keys fs files of
        Inl e \<Rightarrow> Inl e
      | Inr kps \<Rightarrow> Inr (map snd (sort_key (\<lambda>kp. - fst kp) kps)))"

text \<open>
  Line 134 subtracts the integer \<open>recent_minutes * 60\<close> from the float \<open>time.time()\<close>:
  the integer is converted to a float, which raises \<open>OverflowError\<close> when it rounds to
  a magnitude of \<open>2 ^ 1024\<close> or more.
\<close>

definition float_overflow :: "int \<Rightarrow> bool" where
  "float_overflow n \<longleftrightarrow> \<bar>n\<bar> \<ge> 2 ^ 1024 - 2 ^ 970"

definition recent_files ::
  "world \<Rightarrow> fs \<Rightarrow> path list \<Rightarrow> string list \<Rightarrow> int \<Rightarrow> bool \<Rightarrow> exn + path list" where
  "recent_files w fs dirs patterns recent_minutes deep =
     (if float_overflow (recent_minutes * 60)
      then Inl (Library_Exception ''OverflowError'' ''int too large to convert to float'')
      else
        (let cutoff = now w - recent_minutes * 60;
             files = (if deep then deep_files w fs patterns cutoff
                      else shallow_files w fs dirs patterns cutoff)
         in sort_newest_first (sort_fs w fs) files))"

section \<open>Changing the filesystem\<close>

text \<open>
  \<open>write_node\<close> puts a node at a path whose parent directory exists (\<open>None\<close> otherwise),
  replacing what was there; \<open>remove_node\<close> deletes the entry of a path.
\<close>

fun write_node :: "fs \<Rightarrow> path \<Rightarrow> node \<Rightarrow> fs option" where
  "write_node es [] nd = None"
| "write_node es [n] nd = Some (AList.update n nd es)"
| "write_node es (n # m # ns) nd =
     (case map_of es n of
        Some (Dir t l sub) \<Rightarrow>
          (case write_node sub (m # ns) nd of
             None \<Rightarrow> None
           | Some sub' \<Rightarrow> Some (AList.update n (Dir t l sub') es))
      | _ \<Rightarrow> None)"

fun remove_node :: "fs \<Rightarrow> path \<Rightarrow> fs" where
  "remove_node es [] = es"
| "remove_node es [n] = AList.delete n es"
| "remove_node es (n # m # ns) =
     (case map_of es n of
        Some (Dir t l sub) \<Rightarrow> AList.update n (Dir t l (remove_node sub (m # ns))) es
      | _ \<Rightarrow> es)"

definition library_exception :: "string \<times> string \<Rightarrow> exn" where
  "library_exception e = Library_Exception (fst e) (snd e)"

text \<open>
  \<open>p.mkdir(parents=True, exist_ok=True)\<close>: the missing directories of the path are
  created, the existing ones are kept, and a file in the way is an error.
\<close>

fun mkdirs :: "int \<Rightarrow> fs \<Rightarrow> path \<Rightarrow> exn + fs" where
  "mkdirs t es [] = Inr es"
| "mkdirs t es (n # ns) =
     (case map_of es n of
        None \<Rightarrow>
          (case mkdirs t [] ns of
             Inl e \<Rightarrow> Inl e
           | Inr sub \<Rightarrow> Inr (es @ [(n, Dir (Some t) True sub)]))
      | Some (File t' c) \<Rightarrow>
          Inl (Library_Exception (if ns = [] then ''FileExistsError'' else ''NotADirectoryError'')
                 ''mkdir: a file is in the way'')
      | Some (Dir t' l sub) \<Rightarrow>
          (case mkdirs t sub ns of
             Inl e \<Rightarrow> Inl e
           | Inr sub' \<Rightarrow> Inr (AList.update n (Dir t' l sub') es)))"

definition mkdir :: "world \<Rightarrow> fs \<Rightarrow> path \<Rightarrow> exn + fs" where
  "mkdir w fs p =
     (case mkdir_fault w of
        Some e \<Rightarrow> Inl (library_exception e)
      | None \<Rightarrow> mkdirs (now w) fs p)"

text \<open>
  \<open>shutil.move\<close>, \<open>shutil.copy2\<close> and \<open>Path.unlink\<close>. A destination that is an existing
  directory receives the source under its own name. \<open>copy2\<close> writes the content and the
  modification time of the source. A call that fails leaves the filesystem as it was.
\<close>

definition real_dst :: "fs \<Rightarrow> path \<Rightarrow> path \<Rightarrow> path" where
  "real_dst fs src dst = (if is_dir fs dst then dst @ [path_name src] else dst)"

definition shutil_move :: "world \<Rightarrow> fs \<Rightarrow> path \<Rightarrow> path \<Rightarrow> exn + fs" where
  "shutil_move w fs src dst =
     (case move_fault w of
        Some e \<Rightarrow> Inl (library_exception e)
      | None \<Rightarrow>
          (case lookup fs src of
             None \<Rightarrow> Inl no_such_file
           | Some nd \<Rightarrow>
               if is_dir fs dst \<and> exists fs (real_dst fs src dst)
               then Inl (Library_Exception ''shutil.Error'' ''Destination path already exists'')
               else (case write_node (remove_node fs src) (real_dst fs src dst) nd of
                       None \<Rightarrow> Inl no_such_file
                     | Some fs' \<Rightarrow> Inr fs')))"

definition shutil_copy2 :: "world \<Rightarrow> fs \<Rightarrow> path \<Rightarrow> path \<Rightarrow> exn + fs" where
  "shutil_copy2 w fs src dst =
     (case copy_fault w of
        Some e \<Rightarrow> Inl (library_exception e)
      | None \<Rightarrow>
          (case lookup fs src of
             None \<Rightarrow> Inl no_such_file
           | Some (Dir t l es) \<Rightarrow> Inl (Library_Exception ''IsADirectoryError'' ''copy: source'')
           | Some (File None c) \<Rightarrow> Inl permission_denied
           | Some (File (Some t) c) \<Rightarrow>
               if real_dst fs src dst = src
               then Inl (Library_Exception ''shutil.SameFileError'' ''are the same file'')
               else if is_dir fs (real_dst fs src dst)
               then Inl (Library_Exception ''IsADirectoryError'' ''copy: destination'')
               else (case write_node fs (real_dst fs src dst) (File (Some t) c) of
                       None \<Rightarrow> Inl no_such_file
                     | Some fs' \<Rightarrow> Inr fs')))"

definition unlink :: "world \<Rightarrow> fs \<Rightarrow> path \<Rightarrow> exn + fs" where
  "unlink w fs src =
     (case unlink_fault w of
        Some e \<Rightarrow> Inl (library_exception e)
      | None \<Rightarrow>
          (case lookup fs src of
             None \<Rightarrow> Inl no_such_file
           | Some (Dir t l es) \<Rightarrow> Inl (Library_Exception ''IsADirectoryError'' ''unlink'')
           | Some (File t c) \<Rightarrow> Inr (remove_node fs src)))"

section \<open>The collector\<close>

text \<open>
  \<open>_guess_repo_root\<close>: the first of the script directory and its parents that holds
  \<open>.git\<close> or \<open>data\<close>, the script directory when none does. The two \<open>exists()\<close> are in no
  \<open>try\<close>.
\<close>

fun first_repo_root :: "fs \<Rightarrow> path list \<Rightarrow> exn + path option" where
  "first_repo_root fs [] = Inr None"
| "first_repo_root fs (p # ps) =
     (case path_exists fs (p @ [''.git'']) of
        Inl e \<Rightarrow> Inl e
      | Inr g \<Rightarrow>
          if g then Inr (Some p)
          else (case path_exists fs (p @ [''data'']) of
                  Inl e \<Rightarrow> Inl e
                | Inr d \<Rightarrow> if d then Inr (Some p) else first_repo_root fs ps))"

definition guess_repo_root :: "fs \<Rightarrow> path \<Rightarrow> exn + path" where
  "guess_repo_root fs sd =
     (case first_repo_root fs (sd # parents sd) of
        Inl e \<Rightarrow> Inl e
      | Inr None \<Rightarrow> Inr sd
      | Inr (Some p) \<Rightarrow> Inr p)"

definition parent :: "path \<Rightarrow> path" where
  "parent p = (if length p \<le> 1 then p else butlast p)"

text \<open>
  The calls that \<open>collect_csv\<close> makes, in order: the log by which the order of its
  effects is stated.
\<close>

datatype call =
    Mkdir path
  | is_Search: Search bool
  | Move path path
  | Copy2 path path
  | Unlink path

text \<open>Lines 248 to 256: the move, its fallback to copy and delete, and what is raised.\<close>

definition relocate :: "world \<Rightarrow> fs \<Rightarrow> path \<Rightarrow> path \<Rightarrow> exn option \<times> fs \<times> call list" where
  "relocate w fs src dst =
     (case shutil_move w fs src dst of
        Inr fs' \<Rightarrow> (None, fs', [Move src dst])
      | Inl e \<Rightarrow>
          (case shutil_copy2 w fs src dst of
             Inl e' \<Rightarrow> (Some e', fs, [Move src dst, Copy2 src dst])
           | Inr fs' \<Rightarrow>
               (case unlink w fs' src of
                  Inl e'' \<Rightarrow> (None, fs', [Move src dst, Copy2 src dst, Unlink src])
                | Inr fs'' \<Rightarrow> (None, fs'', [Move src dst, Copy2 src dst, Unlink src]))))"

definition effective_patterns :: "string list option \<Rightarrow> string list" where
  "effective_patterns patterns =
     (case patterns of
        None \<Rightarrow> DEFAULT_PATTERNS
      | Some ps \<Rightarrow> if ps = [] then DEFAULT_PATTERNS else ps)"

text \<open>
  Lines 213 to 223: the fixed directories, then the directories named by \<open>TMP\<close> and
  \<open>TEMP\<close> when the variable is set, not empty and names a directory. The \<open>is_dir()\<close> is
  in no \<open>try\<close>.
\<close>

fun env_dirs :: "world \<Rightarrow> fs \<Rightarrow> string list \<Rightarrow> exn + path list" where
  "env_dirs w fs [] = Inr []"
| "env_dirs w fs (env # envs) =
     (case environ w env of
        None \<Rightarrow> env_dirs w fs envs
      | Some p \<Rightarrow>
          (case path_is_dir fs p of
             Inl e \<Rightarrow> Inl e
           | Inr d \<Rightarrow>
               (case env_dirs w fs envs of
                  Inl e \<Rightarrow> Inl e
                | Inr ps \<Rightarrow> Inr (if d then p # ps else ps))))"

definition search_dirs :: "world \<Rightarrow> fs \<Rightarrow> exn + path list" where
  "search_dirs w fs =
     (case env_dirs w fs [''TMP'', ''TEMP''] of
        Inl e \<Rightarrow> Inl e
      | Inr ps \<Rightarrow>
          Inr ([cwd w, script_dir w, parent (script_dir w), home w @ [''Downloads'']] @ ps))"

text \<open>
  Lines 207 to 223, before any search: the repository root, the data directory and its
  creation, the search directories. The result is the data directory and the search
  directories, or the exception that ended the call; with it come the filesystem and
  the calls made so far.
\<close>

definition prepare :: "world \<Rightarrow> fs \<Rightarrow> (exn + path \<times> path list) \<times> fs \<times> call list" where
  "prepare w fs0 =
     (case guess_repo_root fs0 (script_dir w) of
        Inl e \<Rightarrow> (Inl e, fs0, [])
      | Inr repo_root \<Rightarrow>
          (let data_dir = repo_root @ [''data'', ''nse_sgb_data''] in
           case mkdir w fs0 data_dir of
             Inl e \<Rightarrow> (Inl e, fs0, [Mkdir data_dir])
           | Inr fs \<Rightarrow>
               (case search_dirs w fs of
                  Inl e \<Rightarrow> (Inl e, fs, [Mkdir data_dir])
                | Inr dirs \<Rightarrow> (Inr (data_dir, dirs), fs, [Mkdir data_dir]))))"

definition not_found_message :: "string list \<Rightarrow> bool \<Rightarrow> string" where
  "not_found_message patterns deep =
     ''Could not find any recent CSVs matching: '' @ join_names '', '' patterns @
     (if deep then CHR 0x0A # ''(searched all accessible drives)''
      else CHR 0x0A # ''(try --deep to search all accessible drives)'')"

definition destination :: "world \<Rightarrow> path \<Rightarrow> bool \<Rightarrow> string \<Rightarrow> path" where
  "destination w data_dir keep_timestamped fixed_name =
     (if keep_timestamped then data_dir @ [''nse_sgb_data_'' @ timestamp w @ ''.csv'']
      else data_dir @ [fixed_name])"

text \<open>
  Lines 231 to 262: from the candidates to the result. After the mover the four lines of
  the report are printed, which can raise where the output stream cannot take them.
\<close>

definition finish ::
  "world \<Rightarrow> fs \<Rightarrow> path \<Rightarrow> string list \<Rightarrow> bool \<Rightarrow> string \<Rightarrow> bool \<Rightarrow> path list \<Rightarrow> call list
     \<Rightarrow> (exn + path) \<times> fs \<times> call list" where
  "finish w fs data_dir patterns keep_timestamped fixed_name deep candidates log =
     (case candidates of
        [] \<Rightarrow> (Inl (Raised_FileNotFoundError (not_found_message patterns deep)), fs, log)
      | src # rest \<Rightarrow>
          (let dst = destination w data_dir keep_timestamped fixed_name in
           case relocate w fs src dst of
             (Some e, fs', calls) \<Rightarrow> (Inl e, fs', log @ calls)
           | (None, fs', calls) \<Rightarrow>
               (case print_fault w of
                  Some e \<Rightarrow> (Inl (library_exception e), fs', log @ calls)
                | None \<Rightarrow> (Inr dst, fs', log @ calls))))"

definition collect_csv ::
  "world \<Rightarrow> fs \<Rightarrow> string list option \<Rightarrow> bool \<Rightarrow> string \<Rightarrow> int \<Rightarrow> bool
     \<Rightarrow> (exn + path) \<times> fs \<times> call list" where
  "collect_csv w fs0 patterns keep_timestamped fixed_name recent_minutes deep =
     (let pats = effective_patterns patterns in
      case prepare w fs0 of
        (Inl e, fs, log) \<Rightarrow> (Inl e, fs, log)
      | (Inr (data_dir, dirs), fs, log) \<Rightarrow>
          (case recent_files w fs dirs pats recent_minutes False of
             Inl e \<Rightarrow> (Inl e, fs, log @ [Search False])
           | Inr shallow \<Rightarrow>
               if shallow = [] \<and> deep then
                 (case recent_files w fs [] pats recent_minutes True of
                    Inl e \<Rightarrow> (Inl e, fs, log @ [Search False, Search True])
                  | Inr candidates \<Rightarrow>
                      finish w fs data_dir pats keep_timestamped fixed_name deep candidates
                        (log @ [Search False, Search True]))
               else
                 finish w fs data_dir pats keep_timestamped fixed_name deep shallow
                   (log @ [Search False])))"

section \<open>A POSIX instance of the library\<close>

text \<open>
  For concrete runs the two library functions are instantiated as on a POSIX system,
  where names are compared case-sensitively, for patterns of one component built from
  literal characters, \<open>*\<close> and \<open>?\<close> (no bracket classes, no \<open>**\<close>). \<open>posix_match\<close> is
  \<open>PurePosixPath(name).match(pat)\<close> for a name of one component: an empty pattern is
  rejected, a rooted pattern or one of several components does not match. \<open>posix_glob\<close>
  lists the entries of a directory whose name matches; a directory that is missing or
  cannot be listed has no matches.
\<close>

fun wild_match :: "string \<Rightarrow> string \<Rightarrow> bool" where
  "wild_match [] s = (s = [])"
| "wild_match (c # cs) s =
     (if c = CHR ''*'' then
        (wild_match cs s \<or> (case s of [] \<Rightarrow> False | x # xs \<Rightarrow> wild_match (c # cs) xs))
      else (case s of [] \<Rightarrow> False | x # xs \<Rightarrow> (c = CHR ''?'' \<or> c = x) \<and> wild_match cs xs))"

fun split_on :: "char \<Rightarrow> string \<Rightarrow> string list" where
  "split_on c [] = [[]]"
| "split_on c (x # xs) =
     (if x = c then [] # split_on c xs
      else (case split_on c xs of [] \<Rightarrow> [[x]] | h # t \<Rightarrow> (x # h) # t))"

definition pattern_parts :: "string \<Rightarrow> string list" where
  "pattern_parts pat = filter (\<lambda>x. x \<noteq> [] \<and> x \<noteq> ''.'') (split_on CHR ''/'' pat)"

definition posix_match :: "string \<Rightarrow> string \<Rightarrow> exn + bool" where
  "posix_match name pat =
     (if pat \<noteq> [] \<and> hd pat = CHR ''/'' then Inr False
      else (case pattern_parts pat of
              [] \<Rightarrow> Inl (Library_Exception ''ValueError'' ''empty pattern'')
            | [q] \<Rightarrow> Inr (wild_match q name)
            | _ \<Rightarrow> Inr False))"

definition posix_glob :: "fs \<Rightarrow> path \<Rightarrow> string \<Rightarrow> exn + path list" where
  "posix_glob fs d pat =
     (if pat = [] then Inl (Library_Exception ''ValueError'' ''Unacceptable pattern'')
      else if hd pat = CHR ''/'' then Inl (Library_Exception ''NotImplementedError''
             ''Non-relative patterns are unsupported'')
      else (case pattern_parts pat of
              [q] \<Rightarrow>
                (case lookup fs d of
                   Some (Dir t True es) \<Rightarrow>
                     Inr (map (\<lambda>e. d @ [fst e]) (filter (\<lambda>e. wild_match q (fst e)) es))
                 | _ \<Rightarrow> Inr [])
            | _ \<Rightarrow> Inl (Library_Exception ''NotImplementedError'' ''pattern outside this instance'')))"

definition posix_world :: world where
  "posix_world =
     \<lparr> system = ''Linux'', now = 100000, glob = posix_glob, path_match = posix_match,
       logical_drives = 0, drive_type = (\<lambda>r. Inl (Library_Exception ''AttributeError'' ''no windll'')),
       cwd = [''/'', ''work''], script_dir = [''/'', ''repo'', ''src''],
       home = [''/'', ''home''], environ = (\<lambda>v. None), timestamp = ''20250101_120000'',
       sort_fs = (\<lambda>fs. fs), mkdir_fault = None, move_fault = None, copy_fault = None,
       unlink_fault = None, print_fault = None \<rparr>"

text \<open>
  A small tree: a repository with its script directory, an empty working directory, and
  a downloads folder with three recent vendor files and one that is five hours old.
\<close>

definition downloads_fs :: fs where
  "downloads_fs =
     [(''/'', Dir (Some 0) True
        [(''repo'', Dir (Some 0) True
            [(''.git'', Dir (Some 0) True []), (''src'', Dir (Some 0) True [])]),
         (''work'', Dir (Some 0) True []),
         (''home'', Dir (Some 0) True
            [(''Downloads'', Dir (Some 0) True
                [(''MW-SGB-a.csv'', File (Some 99000) ''a''),
                 (''MW-SGB-b.csv'', File (Some 99500) ''b''),
                 (''MW-SGB-c.csv'', File (Some 99200) ''c''),
                 (''MW-SGB-old.csv'', File (Some 82000) ''old'')])])])]"

text \<open>The same layout with nothing to find.\<close>

definition empty_fs :: fs where
  "empty_fs =
     [(''/'', Dir (Some 0) True
        [(''repo'', Dir (Some 0) True
            [(''.git'', Dir (Some 0) True []), (''src'', Dir (Some 0) True [])]),
         (''work'', Dir (Some 0) True []),
         (''home'', Dir (Some 0) True [(''Downloads'', Dir (Some 0) True [])])])]"

text \<open>A recent vendor file in \<open>/tmp\<close>, and nothing else to find.\<close>

definition tmp_fs :: fs where
  "tmp_fs =
     [(''/'', Dir (Some 0) True
        [(''tmp'', Dir (Some 0) True [(''MW-SGB-1.csv'', File (Some 99900) ''sgb'')])])]"

text \<open>
  A downloads folder with a file whose \<open>stat\<close> fails, a directory that cannot be listed
  and holds a file, a recent file of another name, and one recent vendor file.
\<close>

definition faulty_fs :: fs where
  "faulty_fs =
     [(''/'', Dir (Some 0) True
        [(''home'', Dir (Some 0) True
            [(''Downloads'', Dir (Some 0) True
                [(''MW-SGB-bad.csv'', File None ''bad''),
                 (''locked'', Dir (Some 0) False [(''MW-SGB-in.csv'', File (Some 99900) ''in'')]),
                 (''other.csv'', File (Some 99900) ''other''),
                 (''MW-SGB-ok.csv'', File (Some 99800) ''ok'')])])])]"

text \<open>A downloads folder whose only file is a vendor file, named in the case given.\<close>

definition one_download :: "string \<Rightarrow> fs" where
  "one_download name =
     [(''/'', Dir (Some 0) True
        [(''home'', Dir (Some 0) True
            [(''Downloads'', Dir (Some 0) True [(name, File (Some 99900) ''sgb'')])])])]"

text \<open>
  The POSIX world with another process at work: it deletes \<open>MW-SGB-c.csv\<close> from the
  downloads folder after the scan and before the sort.
\<close>

definition racing_world :: world where
  "racing_world =
     posix_world \<lparr> sort_fs := (\<lambda>fs. remove_node fs [''/'', ''home'', ''Downloads'', ''MW-SGB-c.csv'']) \<rparr>"




section \<open>Evaluating the model on the small trees\<close>

lemma downloads_shallow_run:
  "recent_files posix_world downloads_fs [[''/'', ''home'', ''Downloads'']] DEFAULT_PATTERNS 180 False
     = Inr [[''/'', ''home'', ''Downloads'', ''MW-SGB-b.csv''],
            [''/'', ''home'', ''Downloads'', ''MW-SGB-c.csv''],
            [''/'', ''home'', ''Downloads'', ''MW-SGB-a.csv'']]"
  by code_simp

lemma downloads_candidates:
  "shallow_files posix_world downloads_fs [[''/'', ''home'', ''Downloads'']] DEFAULT_PATTERNS
       (now posix_world - 180 * 60)
     = [[''/'', ''home'', ''Downloads'', ''MW-SGB-a.csv''],
        [''/'', ''home'', ''Downloads'', ''MW-SGB-b.csv''],
        [''/'', ''home'', ''Downloads'', ''MW-SGB-c.csv'']]"
  by code_simp

lemma downloads_mtimes:
  "stat_mtime (sort_fs posix_world downloads_fs) [''/'', ''home'', ''Downloads'', ''MW-SGB-a.csv'']
     = Inr 99000"
  "stat_mtime (sort_fs posix_world downloads_fs) [''/'', ''home'', ''Downloads'', ''MW-SGB-b.csv'']
     = Inr 99500"
  "stat_mtime (sort_fs posix_world downloads_fs) [''/'', ''home'', ''Downloads'', ''MW-SGB-c.csv'']
     = Inr 99200"
  by code_simp+

lemma lower_case_name_matched:
  "recent_files posix_world (one_download ''mw-sgb-20250101.csv'')
       [[''/'', ''home'', ''Downloads'']] [''MW-SGB*.csv''] 180 False
     = Inr [[''/'', ''home'', ''Downloads'', ''mw-sgb-20250101.csv'']]"
  "set (projr (recent_files posix_world (one_download ''mw-sgb-20250101.csv'')
       [] [''MW-SGB*.csv''] 180 True))
     = {[''/'', ''home'', ''Downloads'', ''mw-sgb-20250101.csv'']}"
  by code_simp+

section \<open>Properties of the selector\<close>

lemma in_map_filter:
  "y \<in> set (List.map_filter f xs) \<longleftrightarrow> (\<exists>x. x \<in> set xs \<and> f x = Some y)"
  by (induction xs) (auto split: option.splits)

lemma stat_keys_Inr:
  "stat_keys fs files = Inr kps \<Longrightarrow>
     map snd kps = files \<and> map (stat_mtime fs) files = map (\<lambda>kp. Inr (fst kp)) kps"
  by (induction files arbitrary: kps) (auto split: sum.splits)

lemma stat_keys_total:
  "list_all (\<lambda>p. \<exists>t. stat_mtime fs p = Inr t) files \<Longrightarrow> \<exists>kps. stat_keys fs files = Inr kps"
  by (induction files) (auto split: sum.splits)

lemma sort_newest_first_Inr:
  assumes "sort_newest_first fs files = Inr out"
  shows "mset out = mset files"
    and "\<exists>ts. map (stat_mtime fs) out = map Inr ts \<and> sorted_wrt (\<lambda>a b. b \<le> a) ts"
proof -
  from assms obtain kps where k: "stat_keys fs files = Inr kps"
    and out: "out = map snd (sort_key (\<lambda>kp. - fst kp) kps)"
    by (auto simp: sort_newest_first_def split: sum.splits)
  from stat_keys_Inr[OF k] have m: "map snd kps = files"
    and st: "map (stat_mtime fs) files = map (\<lambda>kp. Inr (fst kp)) kps" by auto
  have "mset out = image_mset snd (mset (sort_key (\<lambda>kp. - fst kp) kps))"
    by (simp add: out)
  also have "\<dots> = image_mset snd (mset kps)" by simp
  also have "\<dots> = mset (map snd kps)" by simp
  finally show "mset out = mset files" using m by simp
  let ?s = "sort_key (\<lambda>kp. - fst kp) kps"
  have each: "\<forall>kp \<in> set kps. stat_mtime fs (snd kp) = Inr (fst kp)"
    using st m by (induction kps arbitrary: files) auto
  have "map (stat_mtime fs) out = map Inr (map fst ?s)"
    using each by (simp add: out)
  moreover have "sorted (map (\<lambda>kp. - fst kp) ?s)" by (rule sorted_sort_key)
  then have "sorted_wrt (\<lambda>a b. b \<le> a) (map fst ?s)"
    by (simp add: sorted_wrt_map)
  ultimately show "\<exists>ts. map (stat_mtime fs) out = map Inr ts \<and> sorted_wrt (\<lambda>a b. b \<le> a) ts"
    by blast
qed

lemma deep_candidate_iff:
  "deep_candidate w fs patterns cutoff cur name = Some p \<longleftrightarrow>
     p = cur @ [name] \<and> lower (py_suffix (path_name p)) = ''.csv'' \<and> \<not> ignored w p \<and>
     any_match w name (casings patterns) = Inr True \<and>
     (\<exists>t. stat_mtime fs p = Inr t \<and> cutoff \<le> t)"
  by (auto simp: deep_candidate_def Let_def split: if_splits sum.splits)

lemma shallow_candidate_iff:
  "shallow_candidate w fs cutoff q = Some p \<longleftrightarrow>
     p = q \<and> is_file fs p = Inr True \<and> lower (py_suffix (path_name p)) = ''.csv'' \<and>
     \<not> ignored w p \<and> (\<exists>t. stat_mtime fs p = Inr t \<and> cutoff \<le> t)"
  by (auto simp: shallow_candidate_def split: if_splits sum.splits)

lemma deep_files_mem:
  "p \<in> set (deep_files w fs patterns cutoff) \<longleftrightarrow>
     (\<exists>root cur names name. root \<in> set (enumerate_accessible_roots w fs) \<and>
        (cur, names) \<in> set (walk_from fs keep_dir root) \<and> name \<in> set names \<and>
        deep_candidate w fs patterns cutoff cur name = Some p)"
  by (fastforce simp: deep_files_def in_map_filter)

lemma shallow_files_mem:
  "p \<in> set (shallow_files w fs dirs patterns cutoff) \<longleftrightarrow>
     (\<exists>d q. d \<in> set dirs \<and> q \<in> set (list_matches w fs d patterns) \<and>
        shallow_candidate w fs cutoff q = Some p)"
  by (fastforce simp: shallow_files_def in_map_filter)

lemma files_stat_ok:
  "p \<in> set (if deep then deep_files w fs patterns cutoff else shallow_files w fs dirs patterns cutoff)
   \<Longrightarrow> \<not> ignored w p \<and> (\<exists>t. stat_mtime fs p = Inr t \<and> cutoff \<le> t)"
  by (auto simp: deep_files_mem shallow_files_mem deep_candidate_iff shallow_candidate_iff
      split: if_splits)

lemma recent_files_Inr:
  assumes "recent_files w fs dirs patterns recent_minutes deep = Inr files"
  shows "sort_newest_first (sort_fs w fs)
           (if deep then deep_files w fs patterns (now w - recent_minutes * 60)
            else shallow_files w fs dirs patterns (now w - recent_minutes * 60)) = Inr files"
  using assms by (simp add: recent_files_def Let_def split: if_splits)

lemma recent_files_mset:
  assumes "recent_files w fs dirs patterns recent_minutes deep = Inr files"
  shows "mset files =
     mset (if deep then deep_files w fs patterns (now w - recent_minutes * 60)
           else shallow_files w fs dirs patterns (now w - recent_minutes * 60))"
  using sort_newest_first_Inr(1)[OF recent_files_Inr[OF assms]] .

lemma recent_files_set:
  assumes "recent_files w fs dirs patterns recent_minutes deep = Inr files"
  shows "set files =
     set (if deep then deep_files w fs patterns (now w - recent_minutes * 60)
          else shallow_files w fs dirs patterns (now w - recent_minutes * 60))"
  using recent_files_mset[OF assms] by (metis set_mset_mset)

text \<open>
  Where no other process touches the filesystem and the window converts to a float,
  \<open>_recent_files\<close> returns a list: every failure of the scan is a skipped item, and the
  sort examines only files that the filter could examine.
\<close>

lemma recent_files_quiet:
  assumes "sort_fs w fs = fs" and "\<not> float_overflow (recent_minutes * 60)"
  shows "\<exists>files. recent_files w fs dirs patterns recent_minutes deep = Inr files"
proof -
  let ?c = "now w - recent_minutes * 60"
  let ?fs = "if deep then deep_files w fs patterns ?c else shallow_files w fs dirs patterns ?c"
  have "list_all (\<lambda>p. \<exists>t. stat_mtime fs p = Inr t) ?fs"
    unfolding list_all_iff using files_stat_ok[of _ deep w fs patterns ?c dirs] by blast
  from stat_keys_total[OF this] show ?thesis
    using assms by (auto simp: recent_files_def sort_newest_first_def Let_def)
qed

lemma ignored_iff:
  "ignored w p \<longleftrightarrow>
     endswith (lower (path_str (sep w) p)) ''.crdownload'' \<or>
     endswith (lower (path_str (sep w) p)) ''.part'' \<or>
     endswith (lower (path_str (sep w) p)) ''.tmp''"
  by (simp add: ignored_def IGNORE_SUFFIXES_def)

text \<open>
  C1. Whatever the tree, the patterns, the window and the mode, every file that
  \<open>_recent_files\<close> returns has a modification time that is not older than
  \<open>now - recent_minutes * 60\<close>, and its path, lowercased, ends with none of
  \<open>.crdownload\<close>, \<open>.part\<close>, \<open>.tmp\<close>.
\<close>

theorem recent_files_recent_and_not_partial:
  assumes "recent_files w fs dirs patterns recent_minutes deep = Inr files"
    and "p \<in> set files"
  shows "(\<exists>t. stat_mtime fs p = Inr t \<and> now w - recent_minutes * 60 \<le> t) \<and>
         \<not> endswith (lower (path_str (sep w) p)) ''.crdownload'' \<and>
         \<not> endswith (lower (path_str (sep w) p)) ''.part'' \<and>
         \<not> endswith (lower (path_str (sep w) p)) ''.tmp''"
proof -
  from assms have "p \<in> set (if deep then deep_files w fs patterns (now w - recent_minutes * 60)
          else shallow_files w fs dirs patterns (now w - recent_minutes * 60))"
    using recent_files_set by blast
  from files_stat_ok[OF this] show ?thesis by (simp add: ignored_iff)
qed

theorem recent_files_recent_and_not_partial_witness:
  "recent_files posix_world downloads_fs [[''/'', ''home'', ''Downloads'']] DEFAULT_PATTERNS 180 False
     = Inr [[''/'', ''home'', ''Downloads'', ''MW-SGB-b.csv''],
            [''/'', ''home'', ''Downloads'', ''MW-SGB-c.csv''],
            [''/'', ''home'', ''Downloads'', ''MW-SGB-a.csv'']] \<and>
   (\<exists>t. stat_mtime downloads_fs [''/'', ''home'', ''Downloads'', ''MW-SGB-c.csv''] = Inr t \<and>
        now posix_world - 180 * 60 \<le> t) \<and>
   \<not> endswith (lower (path_str (sep posix_world) [''/'', ''home'', ''Downloads'', ''MW-SGB-c.csv'']))
        ''.tmp''"
  using recent_files_recent_and_not_partial [OF downloads_shallow_run,
      of "[''/'', ''home'', ''Downloads'', ''MW-SGB-c.csv'']"]
    downloads_shallow_run
  by simp

text \<open>
  C3. The list that \<open>_recent_files\<close> returns holds exactly the passing candidates, each
  as often as the scan found it, in descending order of the modification time that the
  sort reads: these times never increase along the list, and the first element carries
  the greatest modification time of all the candidates.
\<close>

theorem recent_files_sorted_newest_first:
  assumes "recent_files w fs dirs patterns recent_minutes deep = Inr files"
  shows "mset files =
           mset (if deep then deep_files w fs patterns (now w - recent_minutes * 60)
                 else shallow_files w fs dirs patterns (now w - recent_minutes * 60)) \<and>
         (\<exists>ts. map (stat_mtime (sort_fs w fs)) files = map Inr ts \<and>
               sorted_wrt (\<lambda>a b. b \<le> a) ts \<and>
               (\<forall>c \<in> set (if deep then deep_files w fs patterns (now w - recent_minutes * 60)
                           else shallow_files w fs dirs patterns (now w - recent_minutes * 60)).
                  \<exists>t. stat_mtime (sort_fs w fs) c = Inr t \<and> t \<le> hd ts \<and>
                      stat_mtime (sort_fs w fs) (hd files) = Inr (hd ts)))"
proof -
  let ?cands = "if deep then deep_files w fs patterns (now w - recent_minutes * 60)
                else shallow_files w fs dirs patterns (now w - recent_minutes * 60)"
  have m: "mset files = mset ?cands" using recent_files_mset[OF assms] .
  from sort_newest_first_Inr(2)[OF recent_files_Inr[OF assms]] obtain ts where
    ts: "map (stat_mtime (sort_fs w fs)) files = map Inr ts" "sorted_wrt (\<lambda>a b. b \<le> a) ts"
    by blast
  have len: "length ts = length files" using ts(1) by (metis length_map)
  have top: "\<forall>t \<in> set ts. t \<le> hd ts"
    using ts(2) by (cases ts) auto
  have "\<exists>t. stat_mtime (sort_fs w fs) c = Inr t \<and> t \<le> hd ts \<and>
            stat_mtime (sort_fs w fs) (hd files) = Inr (hd ts)" if c: "c \<in> set ?cands" for c
  proof -
    from c m have cf: "c \<in> set files" by (metis set_mset_mset)
    then obtain i where i: "i < length files" "files ! i = c" by (auto simp: in_set_conv_nth)
    from ts(1) i len have "stat_mtime (sort_fs w fs) c = Inr (ts ! i)"
      by (metis nth_map)
    moreover from i len have "ts ! i \<in> set ts" by simp
    moreover from cf ts(1) len have "stat_mtime (sort_fs w fs) (hd files) = Inr (hd ts)"
      by (cases files; cases ts) auto
    ultimately show ?thesis using top by blast
  qed
  with m ts show ?thesis by blast
qed

theorem recent_files_sorted_newest_first_witness:
  "mset [[''/'', ''home'', ''Downloads'', ''MW-SGB-b.csv''],
         [''/'', ''home'', ''Downloads'', ''MW-SGB-c.csv''],
         [''/'', ''home'', ''Downloads'', ''MW-SGB-a.csv'']]
     = mset [[''/'', ''home'', ''Downloads'', ''MW-SGB-a.csv''],
             [''/'', ''home'', ''Downloads'', ''MW-SGB-b.csv''],
             [''/'', ''home'', ''Downloads'', ''MW-SGB-c.csv'']] \<and>
   (\<exists>ts. map (stat_mtime (sort_fs posix_world downloads_fs))
            [[''/'', ''home'', ''Downloads'', ''MW-SGB-b.csv''],
             [''/'', ''home'', ''Downloads'', ''MW-SGB-c.csv''],
             [''/'', ''home'', ''Downloads'', ''MW-SGB-a.csv'']] = map Inr ts \<and>
          sorted_wrt (\<lambda>a b. b \<le> a) ts \<and> hd ts = 99500)"
proof -
  from recent_files_sorted_newest_first [OF downloads_shallow_run]
  have m: "mset [[''/'', ''home'', ''Downloads'', ''MW-SGB-b.csv''],
         [''/'', ''home'', ''Downloads'', ''MW-SGB-c.csv''],
         [''/'', ''home'', ''Downloads'', ''MW-SGB-a.csv'']]
     = mset [[''/'', ''home'', ''Downloads'', ''MW-SGB-a.csv''],
             [''/'', ''home'', ''Downloads'', ''MW-SGB-b.csv''],
             [''/'', ''home'', ''Downloads'', ''MW-SGB-c.csv'']]"
    by (simp only: downloads_candidates if_False)
  from recent_files_sorted_newest_first [OF downloads_shallow_run] obtain ts where
    ts: "map (stat_mtime (sort_fs posix_world downloads_fs))
            [[''/'', ''home'', ''Downloads'', ''MW-SGB-b.csv''],
             [''/'', ''home'', ''Downloads'', ''MW-SGB-c.csv''],
             [''/'', ''home'', ''Downloads'', ''MW-SGB-a.csv'']] = map Inr ts"
      "sorted_wrt (\<lambda>a b. b \<le> a) ts" by blast
  from ts(1) have "map Inr ts = ([Inr 99500, Inr 99200, Inr 99000] :: (exn + int) list)"
    by (simp only: list.map downloads_mtimes)
  then have "ts = [99500, 99200, 99000]"
    by (auto simp: map_eq_Cons_conv)
  then have "hd ts = 99500" by simp
  with m ts show ?thesis by blast
qed

section \<open>Failures during the search\<close>

text \<open>
  A file whose \<open>stat\<close> fails, a directory that cannot be listed and a pattern that the
  library rejects are passed over by the scan.
\<close>

lemma faulty_runs:
  "recent_files posix_world faulty_fs [[''/'', ''home'', ''Downloads'']] [''MW-SGB*.csv'', ''''] 180 False
     = Inr [[''/'', ''home'', ''Downloads'', ''MW-SGB-ok.csv'']]"
  "recent_files posix_world faulty_fs [] [''MW-SGB*.csv''] 180 True
     = Inr [[''/'', ''home'', ''Downloads'', ''MW-SGB-ok.csv''],
            [''/'', ''home'', ''Downloads'', ''MW-SGB-ok.csv'']]"
  "stat_mtime faulty_fs [''/'', ''home'', ''Downloads'', ''MW-SGB-bad.csv'']
     = Inl (Library_Exception ''PermissionError'' ''[Errno 13] Permission denied'')"
  "glob posix_world faulty_fs [''/'', ''home'', ''Downloads''] ''''
     = Inl (Library_Exception ''ValueError'' ''Unacceptable pattern'')"
  by code_simp+

text \<open>
  A window too large for a float ends \<open>_recent_files\<close> at line 134, before the scan.
\<close>

lemma huge_window_raises:
  "recent_files posix_world downloads_fs [[''/'', ''home'', ''Downloads'']] DEFAULT_PATTERNS
       (10 ^ 309) False
     = Inl (Library_Exception ''OverflowError'' ''int too large to convert to float'')"
  by (simp add: recent_files_def float_overflow_def)

text \<open>
  C8, at a failing input. The downloads folder holds three recent vendor files, and all
  three pass the filter of the shallow scan. Another process deletes \<open>MW-SGB-c.csv\<close>
  before line 183 sorts the list. The key function of the sort calls \<open>stat\<close> in no \<open>try\<close>:
  the \<open>FileNotFoundError\<close> of the vanished file leaves \<open>_recent_files\<close>, in shallow and
  in deep mode, and with it \<open>collect_csv\<close>.
\<close>

theorem vanished_candidate_leaves_recent_files:
  "shallow_files racing_world downloads_fs [[''/'', ''home'', ''Downloads'']] DEFAULT_PATTERNS
       (now racing_world - 180 * 60)
     = [[''/'', ''home'', ''Downloads'', ''MW-SGB-a.csv''],
        [''/'', ''home'', ''Downloads'', ''MW-SGB-b.csv''],
        [''/'', ''home'', ''Downloads'', ''MW-SGB-c.csv'']] \<and>
   stat_mtime downloads_fs [''/'', ''home'', ''Downloads'', ''MW-SGB-c.csv''] = Inr 99200 \<and>
   stat_mtime (sort_fs racing_world downloads_fs) [''/'', ''home'', ''Downloads'', ''MW-SGB-c.csv'']
     = Inl (Library_Exception ''FileNotFoundError'' ''[Errno 2] No such file or directory'') \<and>
   recent_files racing_world downloads_fs [[''/'', ''home'', ''Downloads'']] DEFAULT_PATTERNS 180 False
     = Inl (Library_Exception ''FileNotFoundError'' ''[Errno 2] No such file or directory'') \<and>
   recent_files racing_world downloads_fs [] DEFAULT_PATTERNS 180 True
     = Inl (Library_Exception ''FileNotFoundError'' ''[Errno 2] No such file or directory'') \<and>
   fst (collect_csv racing_world downloads_fs None True ''nse_sgb_data.csv'' 180 False)
     = Inl (Library_Exception ''FileNotFoundError'' ''[Errno 2] No such file or directory'')"
  by code_simp

section \<open>Pruning\<close>

text \<open>
  Below the directory where a walk starts, only directories that the loop body kept are
  entered.
\<close>

lemma os_walk_kept_only:
  "(cur, names) \<in> set (os_walk keep start nd) \<Longrightarrow> \<exists>ds. cur = start @ ds \<and> list_all keep ds"
proof (induction keep start nd arbitrary: cur names rule: os_walk.induct)
  case (1 keep start t c)
  then show ?case by simp
next
  case (2 keep start t l es)
  show ?case
  proof (cases "cur = start")
    case True
    then show ?thesis by (intro exI[of _ "[]"]) simp
  next
    case False
    with "2.prems" obtain e where e: "e \<in> set es" "is_Dir (snd e)" "keep (fst e)"
      "(cur, names) \<in> set (os_walk keep (start @ [fst e]) (snd e))" and l: "l"
      by (auto split: if_splits)
    from "2.IH"[OF _ e(1) _ e(4)] l e(2,3) obtain ds where
      "cur = (start @ [fst e]) @ ds" "list_all keep ds" by auto
    then show ?thesis using e(3) by (intro exI[of _ "fst e # ds"]) simp
  qed
qed

lemma deep_files_below_kept_dirs:
  assumes "recent_files w fs dirs patterns recent_minutes True = Inr files" and "p \<in> set files"
  shows "\<exists>root ds name. root \<in> set (enumerate_accessible_roots w fs) \<and>
           p = root @ ds @ [name] \<and> list_all keep_dir ds"
proof -
  from recent_files_set[OF assms(1)] assms(2) obtain root cur names name where
    r: "root \<in> set (enumerate_accessible_roots w fs)"
    and c: "(cur, names) \<in> set (walk_from fs keep_dir root)"
    and p: "p = cur @ [name]"
    by (auto simp: deep_files_mem deep_candidate_iff)
  from c obtain nd where "(cur, names) \<in> set (os_walk keep_dir root nd)"
    by (auto simp: walk_from_def split: option.splits)
  from os_walk_kept_only[OF this] obtain ds where "cur = root @ ds" "list_all keep_dir ds"
    by blast
  with r p show ?thesis by auto
qed

text \<open>
  C2, at a failing input. On a POSIX system \<open>_enumerate_accessible_roots\<close> makes every
  directory right below \<open>/\<close> a root of its own, \<open>/tmp\<close> among them, and the walk prunes
  sub-directories only: \<open>tmp\<close> is in the skip-set, and the deep search returns the recent
  vendor file \<open>/tmp/MW-SGB-1.csv\<close>.
\<close>

theorem deep_search_returns_file_under_tmp:
  "lower ''tmp'' \<in> set SKIP_DIR_NAMES \<and>
   enumerate_accessible_roots posix_world tmp_fs = [[''/''], [''/'', ''tmp'']] \<and>
   recent_files posix_world tmp_fs [] DEFAULT_PATTERNS 180 True
     = Inr [[''/'', ''tmp'', ''MW-SGB-1.csv'']]"
  by code_simp

section \<open>Casing\<close>

text \<open>
  C4, at a failing input. Where names are compared case-sensitively, a vendor file whose
  name is in mixed case matches none of the three casings of \<open>MW-SGB*.csv\<close>: neither
  search returns it, though the shallow search finds it under a pattern in its own
  casing.
\<close>

theorem mixed_case_name_not_matched:
  "recent_files posix_world (one_download ''Mw-Sgb-20250101.csv'')
       [[''/'', ''home'', ''Downloads'']] [''MW-SGB*.csv''] 180 False = Inr [] \<and>
   recent_files posix_world (one_download ''Mw-Sgb-20250101.csv'')
       [] [''MW-SGB*.csv''] 180 True = Inr [] \<and>
   recent_files posix_world (one_download ''Mw-Sgb-20250101.csv'')
       [[''/'', ''home'', ''Downloads'']] [''Mw-Sgb*.csv''] 180 False
     = Inr [[''/'', ''home'', ''Downloads'', ''Mw-Sgb-20250101.csv'']]"
  by code_simp

section \<open>Properties of the collector\<close>






text \<open>Only line 232 raises the error that \<open>collect_csv\<close> raises itself.\<close>

lemma mkdirs_library:
  "mkdirs t es p = Inl e \<Longrightarrow> e \<noteq> Raised_FileNotFoundError msg"
  by (induction p arbitrary: es) (auto split: option.splits node.splits sum.splits)

lemma mkdir_library:
  "mkdir w fs p = Inl e \<Longrightarrow> e \<noteq> Raised_FileNotFoundError msg"
  by (auto simp: mkdir_def library_exception_def split: option.splits dest: mkdirs_library)

lemma first_repo_root_library:
  "first_repo_root fs ps = Inl e \<Longrightarrow> e \<noteq> Raised_FileNotFoundError msg"
  by (induction ps)
     (auto simp: path_exists_def permission_denied_def split: option.splits sum.splits if_splits)

lemma guess_repo_root_library:
  "guess_repo_root fs sd = Inl e \<Longrightarrow> e \<noteq> Raised_FileNotFoundError msg"
  by (auto simp: guess_repo_root_def simp del: first_repo_root.simps
      split: sum.splits option.splits dest: first_repo_root_library)

lemma env_dirs_library:
  "env_dirs w fs envs = Inl e \<Longrightarrow> e \<noteq> Raised_FileNotFoundError msg"
  by (induction envs arbitrary: e)
     (auto simp: path_is_dir_def permission_denied_def split: option.splits sum.splits)

lemma search_dirs_library:
  "search_dirs w fs = Inl e \<Longrightarrow> e \<noteq> Raised_FileNotFoundError msg"
  by (auto simp: search_dirs_def simp del: env_dirs.simps split: sum.splits dest: env_dirs_library)

lemma prepare_library:
  "prepare w fs0 = (Inl e, fs, log) \<Longrightarrow> e \<noteq> Raised_FileNotFoundError msg"
  by (auto simp: prepare_def Let_def split: sum.splits
      dest: guess_repo_root_library mkdir_library search_dirs_library)

lemma stat_keys_library:
  "stat_keys fs ps = Inl e \<Longrightarrow> e \<noteq> Raised_FileNotFoundError msg"
  by (induction ps arbitrary: e)
     (auto simp: stat_mtime_def no_such_file_def permission_denied_def
       split: option.splits sum.splits)

lemma recent_files_library:
  "recent_files w fs dirs pats recent_minutes deep = Inl e \<Longrightarrow> e \<noteq> Raised_FileNotFoundError msg"
  by (auto simp: recent_files_def sort_newest_first_def Let_def split: if_splits sum.splits
      dest: stat_keys_library)

lemma shutil_copy2_library:
  "shutil_copy2 w fs src dst = Inl e \<Longrightarrow> e \<noteq> Raised_FileNotFoundError msg"
  by (auto simp: shutil_copy2_def library_exception_def no_such_file_def permission_denied_def
      split: option.splits node.splits if_splits)

lemma relocate_library:
  "fst (relocate w fs src dst) \<noteq> Some (Raised_FileNotFoundError msg)"
  by (auto simp: relocate_def split: sum.splits dest: shutil_copy2_library)




lemma finish_not_found_iff:
  "fst (finish w fs dd pats kt fn deep candidates log) = Inl (Raised_FileNotFoundError msg)
     \<longleftrightarrow> candidates = [] \<and> msg = not_found_message pats deep"
proof (cases candidates)
  case Nil
  then show ?thesis by (auto simp: finish_def)
next
  case (Cons src rest)
  obtain r f c where rel: "relocate w fs src (destination w dd kt fn) = (r, f, c)"
    by (cases "relocate w fs src (destination w dd kt fn)") auto
  have "r \<noteq> Some (Raised_FileNotFoundError msg)"
    using relocate_library[of w fs src "destination w dd kt fn" msg] rel by simp
  with Cons rel show ?thesis
    by (cases r) (auto simp: finish_def Let_def library_exception_def split: option.splits)
qed

lemma finish_not_found_fs:
  "fst (snd (finish w fs dd pats kt fn deep [] log)) = fs"
  by (simp add: finish_def)

lemma join_names_sublist: "pat \<in> set pats \<Longrightarrow> sublist pat (join_names s pats)"
proof (induction s pats rule: join_names.induct)
  case (1 s)
  then show ?case by simp
next
  case (2 s n)
  then show ?case by simp
next
  case (3 s n m ns)
  show ?case
  proof (cases "pat = n")
    case True
    then show ?thesis by simp
  next
    case False
    with 3 have "sublist pat (join_names s (m # ns))" by simp
    then obtain ps ss where "join_names s (m # ns) = ps @ pat @ ss" by (auto simp: sublist_def)
    then have "join_names s (n # m # ns) = (n @ s @ ps) @ pat @ ss" by simp
    then show ?thesis unfolding sublist_def by blast
  qed
qed

lemma not_found_message_names:
  assumes "pat \<in> set pats"
  shows "sublist pat (not_found_message pats deep)"
proof -
  from join_names_sublist[OF assms, of "'', ''"]
  obtain ps ss where j: "join_names '', '' pats = ps @ pat @ ss"
    unfolding sublist_def by blast
  have "not_found_message pats deep =
      (''Could not find any recent CSVs matching: '' @ ps) @ pat @
      (ss @ (if deep then CHR 0x0A # ''(searched all accessible drives)''
             else CHR 0x0A # ''(try --deep to search all accessible drives)''))"
    unfolding not_found_message_def j by (simp only: append_assoc)
  then show ?thesis unfolding sublist_def by blast
qed

lemma not_found_message_mode:
  "suffix (if deep then ''(searched all accessible drives)''
           else ''(try --deep to search all accessible drives)'') (not_found_message pats deep)"
proof -
  have "not_found_message pats deep =
      (''Could not find any recent CSVs matching: '' @ join_names '', '' pats @ [CHR 0x0A]) @
      (if deep then ''(searched all accessible drives)''
       else ''(try --deep to search all accessible drives)'')"
    by (cases deep) (simp_all add: not_found_message_def)
  then show ?thesis by (rule suffixI)
qed

lemma suffix_same_length: "suffix xs (ys @ zs) \<Longrightarrow> length xs = length zs \<Longrightarrow> xs = zs"
  by (auto simp: suffix_def)

lemma not_found_message_shallow:
  "\<not> suffix ''(searched all accessible drives)'' (not_found_message pats False)"
proof
  assume s: "suffix ''(searched all accessible drives)'' (not_found_message pats False)"
  have "not_found_message pats False =
      (''Could not find any recent CSVs matching: '' @ join_names '', '' pats @
        CHR 0x0A # ''(try --deep '') @ ''to search all accessible drives)''"
    unfolding not_found_message_def by simp
  with s have "suffix ''(searched all accessible drives)''
      ((''Could not find any recent CSVs matching: '' @ join_names '', '' pats @
        CHR 0x0A # ''(try --deep '') @ ''to search all accessible drives)'')" by simp
  then have "''(searched all accessible drives)'' = ''to search all accessible drives)''"
    by (rule suffix_same_length) simp
  then show False by simp
qed

lemma not_found_message_deep:
  "suffix ''(searched all accessible drives)'' (not_found_message pats deep) \<longleftrightarrow> deep"
  using not_found_message_mode[of True pats] not_found_message_shallow[of pats]
  by (cases deep) auto



lemma prepare_cases:
  obtains (failed) e fs log where "prepare w fs0 = (Inl e, fs, log)"
  | (ready) data_dir dirs fs log where "prepare w fs0 = (Inr (data_dir, dirs), fs, log)"
  by (cases "prepare w fs0" rule: prod_cases3) (metis old.prod.exhaust sum.exhaust_sel sumE)

section \<open>Runs of the collector\<close>

lemma empty_fs_prepare:
  "prepare posix_world empty_fs =
     (Inr ([''/'', ''repo'', ''data'', ''nse_sgb_data''],
           [[''/'', ''work''], [''/'', ''repo'', ''src''], [''/'', ''repo''],
            [''/'', ''home'', ''Downloads'']]),
      [(''/'', Dir (Some 0) True
         [(''repo'', Dir (Some 0) True
             [(''.git'', Dir (Some 0) True []), (''src'', Dir (Some 0) True []),
              (''data'', Dir (Some 100000) True [(''nse_sgb_data'', Dir (Some 100000) True [])])]),
          (''work'', Dir (Some 0) True []),
          (''home'', Dir (Some 0) True [(''Downloads'', Dir (Some 0) True [])])])],
      [Mkdir [''/'', ''repo'', ''data'', ''nse_sgb_data'']])"
  by code_simp

lemma empty_fs_searches:
  "recent_files posix_world
      [(''/'', Dir (Some 0) True
         [(''repo'', Dir (Some 0) True
             [(''.git'', Dir (Some 0) True []), (''src'', Dir (Some 0) True []),
              (''data'', Dir (Some 100000) True [(''nse_sgb_data'', Dir (Some 100000) True [])])]),
          (''work'', Dir (Some 0) True []),
          (''home'', Dir (Some 0) True [(''Downloads'', Dir (Some 0) True [])])])]
      [[''/'', ''work''], [''/'', ''repo'', ''src''], [''/'', ''repo''],
       [''/'', ''home'', ''Downloads'']]
      [''MW-SGB*.csv'', ''nse_sgb_data*.csv''] 180 False = Inr []"
  "recent_files posix_world
      [(''/'', Dir (Some 0) True
         [(''repo'', Dir (Some 0) True
             [(''.git'', Dir (Some 0) True []), (''src'', Dir (Some 0) True []),
              (''data'', Dir (Some 100000) True [(''nse_sgb_data'', Dir (Some 100000) True [])])]),
          (''work'', Dir (Some 0) True []),
          (''home'', Dir (Some 0) True [(''Downloads'', Dir (Some 0) True [])])])]
      [] [''MW-SGB*.csv'', ''nse_sgb_data*.csv''] 180 True = Inr []"
  by code_simp+

lemma empty_fs_facts:
  "guess_repo_root empty_fs (script_dir posix_world) = Inr [''/'', ''repo'']"
  "\<not> is_dir empty_fs [''/'', ''repo'', ''data'', ''nse_sgb_data'']"
  "effective_patterns None = [''MW-SGB*.csv'', ''nse_sgb_data*.csv'']"
  "mkdir_fault posix_world = None"
  by code_simp+


lemma downloads_run:
  "collect_csv posix_world downloads_fs None True ''nse_sgb_data.csv'' 180 True =
     (Inr [''/'', ''repo'', ''data'', ''nse_sgb_data'', ''nse_sgb_data_20250101_120000.csv''],
      [(''/'', Dir (Some 0) True
         [(''repo'', Dir (Some 0) True
             [(''.git'', Dir (Some 0) True []), (''src'', Dir (Some 0) True []),
              (''data'', Dir (Some 100000) True
                 [(''nse_sgb_data'', Dir (Some 100000) True
                     [(''nse_sgb_data_20250101_120000.csv'', File (Some 99500) ''b'')])])]),
          (''work'', Dir (Some 0) True []),
          (''home'', Dir (Some 0) True
             [(''Downloads'', Dir (Some 0) True
                 [(''MW-SGB-a.csv'', File (Some 99000) ''a''),
                  (''MW-SGB-c.csv'', File (Some 99200) ''c''),
                  (''MW-SGB-old.csv'', File (Some 82000) ''old'')])])])],
      [Mkdir [''/'', ''repo'', ''data'', ''nse_sgb_data''], Search False,
       Move [''/'', ''home'', ''Downloads'', ''MW-SGB-b.csv'']
            [''/'', ''repo'', ''data'', ''nse_sgb_data'', ''nse_sgb_data_20250101_120000.csv'']])"
  by code_simp

section \<open>The order of the searches\<close>



section \<open>The not-found error\<close>

text \<open>
  C6. \<open>collect_csv\<close> raises its not-found error (line 232) if and only if every search
  that its policy attempts returns no candidate: the shallow search returns the empty
  list and, when \<open>deep\<close> is set, so does the deep search. The message of the error names
  every pattern that was searched, and it ends with \<open>(searched all accessible drives)\<close>
  if and only if \<open>deep\<close> was set. (An exception of a library call is another exception,
  also where its class is \<open>FileNotFoundError\<close>: it says nothing about the candidates and
  names no pattern.)
\<close>

theorem collect_csv_not_found_iff:
  "(fst (collect_csv w fs0 patterns keep_timestamped fixed_name recent_minutes deep)
      = Inl (Raised_FileNotFoundError msg) \<longleftrightarrow>
    (case prepare w fs0 of
       (Inl e, fs, log) \<Rightarrow> False
     | (Inr (data_dir, dirs), fs, log) \<Rightarrow>
         recent_files w fs dirs (effective_patterns patterns) recent_minutes False = Inr [] \<and>
         (deep \<longrightarrow>
            recent_files w fs [] (effective_patterns patterns) recent_minutes True = Inr []) \<and>
         msg = not_found_message (effective_patterns patterns) deep)) \<and>
   (\<forall>pat \<in> set (effective_patterns patterns).
      sublist pat (not_found_message (effective_patterns patterns) deep)) \<and>
   (suffix ''(searched all accessible drives)''
      (not_found_message (effective_patterns patterns) deep) \<longleftrightarrow> deep)"
proof -
  let ?pats = "effective_patterns patterns"
  have main: "fst (collect_csv w fs0 patterns keep_timestamped fixed_name recent_minutes deep)
      = Inl (Raised_FileNotFoundError msg) \<longleftrightarrow>
    (case prepare w fs0 of
       (Inl e, fs, log) \<Rightarrow> False
     | (Inr (data_dir, dirs), fs, log) \<Rightarrow>
         recent_files w fs dirs ?pats recent_minutes False = Inr [] \<and>
         (deep \<longrightarrow> recent_files w fs [] ?pats recent_minutes True = Inr []) \<and>
         msg = not_found_message ?pats deep)"
  proof (cases w fs0 rule: prepare_cases)
    case (failed e fs log)
    from prepare_library[OF failed] failed show ?thesis
      by (simp add: collect_csv_def Let_def)
  next
    case (ready data_dir dirs fs log)
    show ?thesis
    proof (cases "recent_files w fs dirs ?pats recent_minutes False")
      case (Inl e)
      from recent_files_library[OF Inl] ready Inl show ?thesis
        by (simp add: collect_csv_def Let_def)
    next
      case (Inr shallow)
      show ?thesis
      proof (cases "shallow = [] \<and> deep")
        case True
        show ?thesis
        proof (cases "recent_files w fs [] ?pats recent_minutes True")
          case (Inl e)
          from recent_files_library[OF Inl] ready Inr True Inl show ?thesis
            by (simp add: collect_csv_def Let_def)
        next
          case found: (Inr candidates)
          with ready Inr True show ?thesis
            by (simp add: collect_csv_def Let_def finish_not_found_iff)
        qed
      next
        case False
        with ready Inr show ?thesis
          by (auto simp: collect_csv_def Let_def finish_not_found_iff)
      qed
    qed
  qed
  show ?thesis
    using main not_found_message_names[of _ ?pats deep] not_found_message_deep[of ?pats deep]
    by blast
qed

theorem collect_csv_not_found_iff_witness:
  "fst (collect_csv posix_world empty_fs None True ''nse_sgb_data.csv'' 180 True)
     = Inl (Raised_FileNotFoundError (not_found_message [''MW-SGB*.csv'', ''nse_sgb_data*.csv''] True)) \<and>
   sublist ''MW-SGB*.csv'' (not_found_message [''MW-SGB*.csv'', ''nse_sgb_data*.csv''] True) \<and>
   sublist ''nse_sgb_data*.csv'' (not_found_message [''MW-SGB*.csv'', ''nse_sgb_data*.csv''] True) \<and>
   suffix ''(searched all accessible drives)''
     (not_found_message [''MW-SGB*.csv'', ''nse_sgb_data*.csv''] True)"
  using collect_csv_not_found_iff
    [of posix_world empty_fs None True "''nse_sgb_data.csv''" 180 True
        "not_found_message [''MW-SGB*.csv'', ''nse_sgb_data*.csv''] True"]
  by (simp add: empty_fs_prepare empty_fs_facts(3) empty_fs_searches)

section \<open>The default patterns\<close>

text \<open>
  C9. An empty pattern list and no pattern list give the same call: both search for the
  two default patterns \<open>MW-SGB*.csv\<close> and \<open>nse_sgb_data*.csv\<close>, so the empty list is
  never what is searched for.
\<close>

theorem collect_csv_empty_patterns_default:
  "collect_csv w fs (Some []) keep_timestamped fixed_name recent_minutes deep
     = collect_csv w fs None keep_timestamped fixed_name recent_minutes deep \<and>
   collect_csv w fs None keep_timestamped fixed_name recent_minutes deep
     = collect_csv w fs (Some [''MW-SGB*.csv'', ''nse_sgb_data*.csv'']) keep_timestamped fixed_name
         recent_minutes deep \<and>
   effective_patterns (Some []) = [''MW-SGB*.csv'', ''nse_sgb_data*.csv'']"
  by (simp add: collect_csv_def effective_patterns_def DEFAULT_PATTERNS_def)

theorem collect_csv_empty_patterns_default_witness:
  "fst (collect_csv posix_world downloads_fs (Some []) True ''nse_sgb_data.csv'' 180 True)
     = Inr [''/'', ''repo'', ''data'', ''nse_sgb_data'', ''nse_sgb_data_20250101_120000.csv'']"
proof -
  from collect_csv_empty_patterns_default
    [of posix_world downloads_fs True "''nse_sgb_data.csv''" 180 True]
  have "collect_csv posix_world downloads_fs (Some []) True ''nse_sgb_data.csv'' 180 True
      = collect_csv posix_world downloads_fs None True ''nse_sgb_data.csv'' 180 True"
    by (rule conjunct1)
  then show ?thesis by (simp add: downloads_run)
qed

section \<open>The data directory\<close>




section \<open>The mover\<close>










end
